theory Spec2Isabelle
  imports Complex_Main
begin

section \<open>JavaScript numbers\<close>

text \<open>
  The service computes with JavaScript numbers. Finite values are modelled by exact
  rationals (rounding is not modelled); the values that a division by zero produces are
  kept apart, because \<open>x / 0\<close> is \<open>Infinity\<close>, \<open>-Infinity\<close> or \<open>NaN\<close> in
  JavaScript and never an error.
\<close>

datatype jsnum = Finite rat | PosInfinity | NegInfinity | NaN

text \<open>The operator \<open>a / b\<close> on two finite numbers.\<close>

definition js_div :: "rat \<Rightarrow> rat \<Rightarrow> jsnum" where
  "js_div a b =
     (if b = 0
      then (if 0 < a then PosInfinity else if a < 0 then NegInfinity else NaN)
      else Finite (a / b))"

text \<open>The operator \<open>a > b\<close>: every comparison with \<open>NaN\<close> is false.\<close>

fun js_gt :: "jsnum \<Rightarrow> jsnum \<Rightarrow> bool" where
  "js_gt NaN b = False"
| "js_gt a NaN = False"
| "js_gt (Finite a) (Finite b) = (b < a)"
| "js_gt (Finite a) PosInfinity = False"
| "js_gt (Finite a) NegInfinity = True"
| "js_gt PosInfinity PosInfinity = False"
| "js_gt PosInfinity b = True"
| "js_gt NegInfinity b = False"

section \<open>Process environment\<close>

text \<open>
  An entry of \<open>process.env\<close> is \<open>undefined\<close> or a string. Of the string,
  \<open>shouldRemoveListingItem\<close> uses its truthiness (the empty string is falsy, every
  other string is truthy) and, inside the relational operator, its conversion to a
  number; a non-empty string is therefore represented by the number it converts to.
\<close>

datatype env_entry = EnvUndefined | EnvEmpty | EnvNonEmpty jsnum

record process_env =
  MARKETPLACE_VERSION :: "string option"
  MINIMUM_REQUIRED_VOTES :: env_entry

section \<open>Resources\<close>

record ProposalOption =
  optionId :: nat
  description :: string

record ProposalOptionResult =
  ProposalOption :: ProposalOption
  voters :: nat
  weight :: rat

record ProposalResult =
  ProposalOptionResults :: "ProposalOptionResult list"

section \<open>Messages, proposals, votes and listings\<close>

record Profile =
  profile_address :: string

record Market =
  market_address :: string

record FlaggedItem =
  listingItemId :: nat

datatype ProposalType = ITEM_VOTE | PUBLIC_VOTE

record Proposal =
  proposal_id :: nat
  proposal_hash :: string
  proposal_type :: ProposalType
  expiredAt :: int
  ProposalOptions :: "ProposalOption list"
  ProposalResults :: "ProposalResult list"
  FlaggedItem :: "FlaggedItem option"

datatype VoteMessageType = MP_VOTE

record VoteMessage =
  vote_action :: VoteMessageType
  proposalHash :: string
  vote_optionId :: nat
  voter :: string

record MarketplaceMessage =
  version :: "string option"
  mpaction :: "VoteMessage option"

record SmsgMessage =
  msgid :: string
  smsg_from :: string
  daysretention :: rat

record MarketplaceEvent =
  smsgMessage :: SmsgMessage
  marketplaceMessage :: MarketplaceMessage

datatype SmsgMessageStatus = PROCESSED | WAITING | PARSING_FAILED

record SmsgSendResponse =
  result :: string

text \<open>A row of the Vote Ledger, and the request that creates or updates one.\<close>

record Vote =
  vote_id :: nat
  vote_voter :: string
  vote_proposalId :: nat
  vote_option :: nat
  vote_weight :: rat

record VoteRequest =
  req_voter :: string
  req_proposalId :: nat
  req_option :: nat
  req_weight :: rat

record CryptocurrencyAddress =
  address_id :: nat

record ItemPrice =
  CryptocurrencyAddress :: "CryptocurrencyAddress option"

record PaymentInformation =
  ItemPrice :: "ItemPrice option"

record ListingItem =
  Id :: nat
  PaymentInformation :: "PaymentInformation option"

section \<open>State, exceptions and promises\<close>

text \<open>
  The stores behind the collaborating services: the Vote Ledger, the Proposal Store, the
  local profiles, the listings with their payment addresses, the wallet balances that the
  Weight Oracle reads, the processing status of each message, and the messages handed to
  the transport.
\<close>

record state =
  votes :: "Vote list"
  proposals :: "Proposal list"
  profiles :: "Profile list"
  listingItems :: "ListingItem list"
  cryptocurrencyAddresses :: "nat list"
  balances :: "string \<Rightarrow> rat"
  smsgStatus :: "string \<rightharpoonup> SmsgMessageStatus"
  outbox :: "(string \<times> string \<times> MarketplaceMessage \<times> bool \<times> int) list"

datatype exception =
    MessageException string
  | NotFoundException
  | TypeError
  | Rejection string

text \<open>
  An awaited call either resolves to a value or rejects with an exception. A query reads
  the state; a promise may change it as well, also when it rejects.
\<close>

type_synonym 'a query = "state \<Rightarrow> exception + 'a"
type_synonym 'a promise = "state \<Rightarrow> (exception + 'a) \<times> state"

definition resolve :: "'a \<Rightarrow> 'a promise" where
  "resolve x = (\<lambda>st. (Inr x, st))"

definition reject :: "exception \<Rightarrow> 'a promise" where
  "reject ex = (\<lambda>st. (Inl ex, st))"

definition query :: "'a query \<Rightarrow> 'a promise" where
  "query q = (\<lambda>st. (q st, st))"

text \<open>\<open>await m\<close> followed by the rest of the function; \<open>m.then(f)\<close>.\<close>

definition await :: "'a promise \<Rightarrow> ('a \<Rightarrow> 'b promise) \<Rightarrow> 'b promise" where
  "await m f = (\<lambda>st. case m st of (Inl ex, st') \<Rightarrow> (Inl ex, st') | (Inr x, st') \<Rightarrow> f x st')"

text \<open>\<open>m.catch(h)\<close>, and \<open>try { m } catch (ex) { h }\<close>.\<close>

definition catch_all :: "'a promise \<Rightarrow> (exception \<Rightarrow> 'a promise) \<Rightarrow> 'a promise" where
  "catch_all m h = (\<lambda>st. case m st of (Inl ex, st') \<Rightarrow> h ex st' | (Inr x, st') \<Rightarrow> (Inr x, st'))"

section \<open>Injected collaborators\<close>

text \<open>
  The services, factories and repositories that are injected into \<open>VoteActionService\<close>
  and \<open>ListingItemService\<close> and whose code is not part of the sources at hand. Every
  call may reject.
\<close>

record collaborators =
  voteFactory_getMessage ::
    "VoteMessageType \<Rightarrow> Proposal \<Rightarrow> ProposalOption \<Rightarrow> string \<Rightarrow> exception + VoteMessage"
  voteFactory_getModel ::
    "VoteMessage \<Rightarrow> Proposal \<Rightarrow> rat \<Rightarrow> bool \<Rightarrow> SmsgMessage \<Rightarrow> exception + VoteRequest"
  smsgService_smsgSend ::
    "string \<Rightarrow> string \<Rightarrow> MarketplaceMessage \<Rightarrow> bool \<Rightarrow> int \<Rightarrow> SmsgSendResponse promise"
  proposalService_findOneByHash :: "string \<Rightarrow> Proposal query"
  proposalService_recalculateProposalResult :: "Proposal \<Rightarrow> ProposalResult promise"
  voteService_getVoteWeight :: "string \<Rightarrow> rat query"
  voteService_findOneByVoterAndProposalId :: "string \<Rightarrow> nat \<Rightarrow> Vote query"
  voteService_create :: "VoteRequest \<Rightarrow> Vote option promise"
  voteService_update :: "nat \<Rightarrow> VoteRequest \<Rightarrow> Vote option promise"
  profileService_findAll :: "Profile list query"
  listingItemRepo_findOne :: "nat \<Rightarrow> bool \<Rightarrow> ListingItem option query"
  listingItemRepo_destroy :: "nat \<Rightarrow> unit promise"
  cryptocurrencyAddressService_destroy :: "nat \<Rightarrow> unit promise"
  smsgMessageService_updateSmsgMessageStatus :: "SmsgMessage \<Rightarrow> SmsgMessageStatus \<Rightarrow> unit promise"

section \<open>ListingItemService\<close>

definition ListingItemService_findOne :: "collaborators \<Rightarrow> nat \<Rightarrow> bool \<Rightarrow> ListingItem query" where
  "ListingItemService_findOne this i withRelated =
     (\<lambda>st. case listingItemRepo_findOne this i withRelated st of
              Inl ex \<Rightarrow> Inl ex
            | Inr None \<Rightarrow> Inl NotFoundException
            | Inr (Some listingItem) \<Rightarrow> Inr listingItem)"

text \<open>
  \<open>destroy\<close>: \<open>findOne\<close> has thrown already when the model is \<open>null\<close>, so the test
  \<open>!listingItemModel\<close> is never true.
\<close>

definition ListingItemService_destroy :: "collaborators \<Rightarrow> nat \<Rightarrow> unit promise" where
  "ListingItemService_destroy this i =
     await (query (ListingItemService_findOne this i True)) (\<lambda>listingItem.
     await (listingItemRepo_destroy this i) (\<lambda>u.
       case PaymentInformation listingItem of
         None \<Rightarrow> resolve ()
       | Some paymentInformation \<Rightarrow>
           (case ItemPrice paymentInformation of
              None \<Rightarrow> resolve ()
            | Some itemPrice \<Rightarrow>
                (case CryptocurrencyAddress itemPrice of
                   None \<Rightarrow> resolve ()
                 | Some cryptocurrencyAddress \<Rightarrow>
                     cryptocurrencyAddressService_destroy this (address_id cryptocurrencyAddress)))))"

section \<open>VoteActionService\<close>

text \<open>
  \<open>send\<close>; \<open>now\<close> is the value of \<open>new Date().getTime()\<close>, in milliseconds like
  \<open>expiredAt\<close>.
\<close>

definition send ::
  "process_env \<Rightarrow> collaborators \<Rightarrow> int \<Rightarrow> Proposal \<Rightarrow> ProposalOption \<Rightarrow> Profile \<Rightarrow> Market
     \<Rightarrow> SmsgSendResponse promise" where
  "send env this now proposal proposalOption senderProfile marketplace =
     await (\<lambda>st. (voteFactory_getMessage this MP_VOTE proposal proposalOption
                     (profile_address senderProfile), st)) (\<lambda>voteMessage.
       let msg = \<lparr>version = MARKETPLACE_VERSION env, mpaction = Some voteMessage\<rparr>
       in smsgService_smsgSend this (profile_address senderProfile) (market_address marketplace)
            msg False
            (ceiling (rat_of_int (expiredAt proposal - now) / 1000 / 60 / 60 / 24)))"

text \<open>The operand \<open>(process.env.MINIMUM_REQUIRED_VOTES || 1000)\<close>.\<close>

definition minimumRequiredVotes :: "process_env \<Rightarrow> jsnum" where
  "minimumRequiredVotes env =
     (case MINIMUM_REQUIRED_VOTES env of
        EnvUndefined \<Rightarrow> Finite 1000
      | EnvEmpty \<Rightarrow> Finite 1000
      | EnvNonEmpty n \<Rightarrow> n)"

text \<open>
  \<open>shouldRemoveListingItem\<close>: \<open>_.find\<close> returns the first element that satisfies the
  predicate, or \<open>undefined\<close>.
\<close>

definition shouldRemoveListingItem :: "process_env \<Rightarrow> ProposalResult \<Rightarrow> bool" where
  "shouldRemoveListingItem env proposalResult =
     (let okOptionResult =
            find (\<lambda>proposalOptionResult. optionId (ProposalOption proposalOptionResult) = 0)
              (ProposalOptionResults proposalResult);
          removeOptionResult =
            find (\<lambda>proposalOptionResult. optionId (ProposalOption proposalOptionResult) = 1)
              (ProposalOptionResults proposalResult)
      in case removeOptionResult of
           None \<Rightarrow> False
         | Some removeR \<Rightarrow>
             (case okOptionResult of
                None \<Rightarrow> False
              | Some okR \<Rightarrow>
                  (let totalNumVoters = voters okR + voters removeR
                   in if js_gt (Finite (of_nat totalNumVoters)) (minimumRequiredVotes env)
                         \<and> js_gt (js_div (weight removeR) (weight removeR + weight okR))
                              (Finite (1 / 2))
                      then True
                      else False)))"


text \<open>
  \<open>createOrUpdateVote\<close>: every failure of the lookup leaves \<open>lastVote\<close> null, and an
  empty model returned by \<open>create\<close> or \<open>update\<close> is an exception.
\<close>

definition createOrUpdateVote ::
  "collaborators \<Rightarrow> VoteMessage \<Rightarrow> Proposal \<Rightarrow> rat \<Rightarrow> SmsgMessage \<Rightarrow> Vote promise" where
  "createOrUpdateVote this voteMessage proposal w voteSmsg =
     await (query (\<lambda>st.
              case voteService_findOneByVoterAndProposalId this (voter voteMessage)
                     (proposal_id proposal) st of
                Inl ex \<Rightarrow> Inr None
              | Inr lastVoteModel \<Rightarrow> Inr (Some lastVoteModel))) (\<lambda>lastVote.
       let create = (lastVote = None)
       in await (\<lambda>st. (voteFactory_getModel this voteMessage proposal w create voteSmsg, st))
            (\<lambda>voteRequest.
          await (case lastVote of
                   None \<Rightarrow> voteService_create this voteRequest
                 | Some lv \<Rightarrow> voteService_update this (vote_id lv) voteRequest) (\<lambda>voteModel.
            case voteModel of
              None \<Rightarrow> reject (MessageException
                         ''Vote wasn't saved or updated properly. Return val is empty.'')
            | Some vote \<Rightarrow> resolve vote)))"

text \<open>The loop over the local profiles, left at the first match.\<close>

fun weAreTheVoter :: "Profile list \<Rightarrow> string \<Rightarrow> bool" where
  "weAreTheVoter [] v = False"
| "weAreTheVoter (profile # rest) v =
     (if profile_address profile = v then True else weAreTheVoter rest v)"

text \<open>
  \<open>processVoteReceivedEvent\<close>. The two checks before the promise chain throw out of the
  function; everything thrown inside the chain reaches its \<open>catch\<close>. Reading
  \<open>proposal.FlaggedItem.listingItemId\<close> of an absent \<open>FlaggedItem\<close> is a TypeError,
  and a listing id of 0 is falsy.
\<close>

definition processVoteReceivedEvent ::
  "process_env \<Rightarrow> collaborators \<Rightarrow> MarketplaceEvent \<Rightarrow> SmsgMessageStatus promise" where
  "processVoteReceivedEvent env this event =
     (case mpaction (marketplaceMessage event) of
        None \<Rightarrow> reject (MessageException ''Missing mpaction.'')
      | Some voteMessage \<Rightarrow>
          if voter voteMessage \<noteq> smsg_from (smsgMessage event)
          then reject (MessageException ''Voter does not match with sender.'')
          else
            catch_all
              (await (query (proposalService_findOneByHash this (proposalHash voteMessage)))
                 (\<lambda>proposal.
               await (query (profileService_findAll this)) (\<lambda>profiles.
                 if weAreTheVoter profiles (voter voteMessage)
                 then resolve PROCESSED
                 else if ProposalResults proposal = []
                 then reject (MessageException ''ProposalResult should not be empty!'')
                 else if 1 \<le> daysretention (smsgMessage event)
                 then
                   await (query (voteService_getVoteWeight this (voter voteMessage))) (\<lambda>w.
                     if 0 < w
                     then
                       await (createOrUpdateVote this voteMessage proposal w (smsgMessage event))
                         (\<lambda>createdVote.
                       await (proposalService_recalculateProposalResult this proposal)
                         (\<lambda>proposalResult.
                         if proposal_type proposal = ITEM_VOTE
                            \<and> shouldRemoveListingItem env proposalResult
                         then
                           (case FlaggedItem proposal of
                              None \<Rightarrow> reject TypeError
                            | Some flaggedItem \<Rightarrow>
                                await (catch_all
                                         (await (query (ListingItemService_findOne this
                                                          (listingItemId flaggedItem) False))
                                            (\<lambda>v. resolve (Some (Id v))))
                                         (\<lambda>reason. resolve None)) (\<lambda>foundId.
                                  case foundId of
                                    None \<Rightarrow> resolve PROCESSED
                                  | Some i \<Rightarrow>
                                      if i \<noteq> 0
                                      then await (ListingItemService_destroy this i)
                                             (\<lambda>u. resolve PROCESSED)
                                      else resolve PROCESSED))
                         else resolve PROCESSED))
                     else resolve PROCESSED)
                 else reject (MessageException ''Missing VoteMessage''))))
              (\<lambda>reason. resolve WAITING))"

text \<open>
  The listener that \<open>configureEventListeners\<close> registers for \<open>VoteReceivedEvent\<close>:
  \<open>processVoteReceivedEvent(event).then(status => update(status)).catch(reason =>
  update(PARSING_FAILED))\<close>.
\<close>

definition onVoteReceivedEvent :: "process_env \<Rightarrow> collaborators \<Rightarrow> MarketplaceEvent \<Rightarrow> unit promise" where
  "onVoteReceivedEvent env this event =
     catch_all
       (await (processVoteReceivedEvent env this event) (\<lambda>status.
          smsgMessageService_updateSmsgMessageStatus this (smsgMessage event) status))
       (\<lambda>reason.
          smsgMessageService_updateSmsgMessageStatus this (smsgMessage event) PARSING_FAILED)"

section \<open>The collaborators as the specification describes them\<close>

text \<open>
  Modelled from the spec: \<open>VoteFactory.getMessage\<close> is not among the sources. The vote
  message carries the proposal hash, the chosen option and the voter identity.
\<close>

definition VoteFactory_getMessage ::
  "VoteMessageType \<Rightarrow> Proposal \<Rightarrow> ProposalOption \<Rightarrow> string \<Rightarrow> exception + VoteMessage" where
  "VoteFactory_getMessage t proposal proposalOption senderAddress =
     Inr \<lparr>vote_action = t, proposalHash = proposal_hash proposal,
          vote_optionId = optionId proposalOption, voter = senderAddress\<rparr>"

text \<open>
  Modelled from the spec: \<open>VoteFactory.getModel\<close> is not among the sources. The request
  names the voter, the proposal, the chosen option and the weight resolved for this vote.
\<close>

definition VoteFactory_getModel ::
  "VoteMessage \<Rightarrow> Proposal \<Rightarrow> rat \<Rightarrow> bool \<Rightarrow> SmsgMessage \<Rightarrow> exception + VoteRequest" where
  "VoteFactory_getModel voteMessage proposal w create voteSmsg =
     Inr \<lparr>req_voter = voter voteMessage, req_proposalId = proposal_id proposal,
          req_option = vote_optionId voteMessage, req_weight = w\<rparr>"

text \<open>
  Modelled from the spec: \<open>SmsgService.smsgSend\<close> is not among the sources. The transport
  takes the message with its retention and acknowledges it.
\<close>

definition SmsgService_smsgSend ::
  "string \<Rightarrow> string \<Rightarrow> MarketplaceMessage \<Rightarrow> bool \<Rightarrow> int \<Rightarrow> SmsgSendResponse promise" where
  "SmsgService_smsgSend sender recipient msg flag days =
     (\<lambda>st. (Inr \<lparr>result = ''Sent.''\<rparr>,
            st\<lparr>outbox := outbox st @ [(sender, recipient, msg, flag, days)]\<rparr>))"

text \<open>
  Modelled from the spec: \<open>ProposalService.findOneByHash\<close> is not among the sources. It
  looks the proposal up by hash in the Proposal Store and rejects when there is none.
\<close>

definition ProposalService_findOneByHash :: "string \<Rightarrow> Proposal query" where
  "ProposalService_findOneByHash h =
     (\<lambda>st. case find (\<lambda>p. proposal_hash p = h) (proposals st) of
              None \<Rightarrow> Inl NotFoundException
            | Some p \<Rightarrow> Inr p)"

text \<open>
  Modelled from the spec: \<open>ProposalService.recalculateProposalResult\<close>, the Vote Tally
  Engine, is not among the sources. For each option of the proposal it counts the Vote
  rows of the proposal that select the option and sums their weights, in a full pass over
  the ledger, and replaces the snapshot of the proposal.
\<close>

definition tally :: "Proposal \<Rightarrow> Vote list \<Rightarrow> ProposalResult" where
  "tally proposal vs =
     \<lparr>ProposalOptionResults =
        map (\<lambda>opt.
               \<lparr>ProposalOption = opt,
                voters = length (filter (\<lambda>v. vote_proposalId v = proposal_id proposal
                                              \<and> vote_option v = optionId opt) vs),
                weight = sum_list (map vote_weight
                            (filter (\<lambda>v. vote_proposalId v = proposal_id proposal
                                          \<and> vote_option v = optionId opt) vs))\<rparr>)
          (ProposalOptions proposal)\<rparr>"

definition ProposalService_recalculateProposalResult :: "Proposal \<Rightarrow> ProposalResult promise" where
  "ProposalService_recalculateProposalResult proposal =
     (\<lambda>st. (Inr (tally proposal (votes st)),
            st\<lparr>proposals :=
                 map (\<lambda>p. if proposal_id p = proposal_id proposal
                           then p\<lparr>ProposalResults := [tally proposal (votes st)]\<rparr>
                           else p) (proposals st)\<rparr>))"

text \<open>
  Modelled from the spec: \<open>VoteService.getVoteWeight\<close>, the Weight Oracle, is not among
  the sources. It is a pure query of the weight of a voter.
\<close>

definition VoteService_getVoteWeight :: "string \<Rightarrow> rat query" where
  "VoteService_getVoteWeight a = (\<lambda>st. Inr (balances st a))"

text \<open>
  Modelled from the spec: \<open>VoteService.findOneByVoterAndProposalId\<close> is not among the
  sources. It is the lookup of the Vote Ledger by voter and proposal, and rejects when
  there is no such row.
\<close>

definition VoteService_findOneByVoterAndProposalId :: "string \<Rightarrow> nat \<Rightarrow> Vote query" where
  "VoteService_findOneByVoterAndProposalId a pid =
     (\<lambda>st. case find (\<lambda>v. vote_voter v = a \<and> vote_proposalId v = pid) (votes st) of
              None \<Rightarrow> Inl NotFoundException
            | Some v \<Rightarrow> Inr v)"

text \<open>
  Modelled from the spec: \<open>VoteService.create\<close> is not among the sources. It adds one row
  with a fresh id to the Vote Ledger and returns it.
\<close>

definition nextVoteId :: "Vote list \<Rightarrow> nat" where
  "nextVoteId vs = Suc (fold max (map vote_id vs) 0)"

definition VoteService_create :: "VoteRequest \<Rightarrow> Vote option promise" where
  "VoteService_create request =
     (\<lambda>st. let row = \<lparr>vote_id = nextVoteId (votes st), vote_voter = req_voter request,
                       vote_proposalId = req_proposalId request,
                       vote_option = req_option request, vote_weight = req_weight request\<rparr>
            in (Inr (Some row), st\<lparr>votes := votes st @ [row]\<rparr>))"

text \<open>
  Modelled from the spec: \<open>VoteService.update\<close> is not among the sources. It overwrites
  the option and the weight of the row with the given id, in place, and returns the row;
  it rejects when there is no row with that id.
\<close>

definition overwrite :: "VoteRequest \<Rightarrow> Vote \<Rightarrow> Vote" where
  "overwrite request v = v\<lparr>vote_option := req_option request, vote_weight := req_weight request\<rparr>"

definition VoteService_update :: "nat \<Rightarrow> VoteRequest \<Rightarrow> Vote option promise" where
  "VoteService_update i request =
     (\<lambda>st. case find (\<lambda>v. vote_id v = i) (votes st) of
              None \<Rightarrow> (Inl NotFoundException, st)
            | Some v \<Rightarrow>
                (Inr (Some (overwrite request v)),
                 st\<lparr>votes := map (\<lambda>x. if vote_id x = i then overwrite request x else x)
                                 (votes st)\<rparr>))"

text \<open>
  Modelled from the spec: \<open>ProfileService.findAll\<close> is not among the sources. It lists
  the locally controlled profiles.
\<close>

definition ProfileService_findAll :: "Profile list query" where
  "ProfileService_findAll = (\<lambda>st. Inr (profiles st))"

text \<open>
  Modelled from the spec: \<open>ListingItemRepository.findOne\<close> and
  \<open>ListingItemRepository.destroy\<close> are not among the sources. The first finds a listing
  by id, without its related records unless they are asked for, and yields null when
  there is none; the second removes the listing.
\<close>

definition ListingItemRepository_findOne :: "nat \<Rightarrow> bool \<Rightarrow> ListingItem option query" where
  "ListingItemRepository_findOne i withRelated =
     (\<lambda>st. case find (\<lambda>l. Id l = i) (listingItems st) of
              None \<Rightarrow> Inr None
            | Some l \<Rightarrow> Inr (Some (if withRelated then l else l\<lparr>PaymentInformation := None\<rparr>)))"

definition ListingItemRepository_destroy :: "nat \<Rightarrow> unit promise" where
  "ListingItemRepository_destroy i =
     (\<lambda>st. (Inr (), st\<lparr>listingItems := filter (\<lambda>l. Id l \<noteq> i) (listingItems st)\<rparr>))"

text \<open>
  Modelled from the spec: \<open>CryptocurrencyAddressService.destroy\<close> is not among the
  sources. It removes the payment address of a listing.
\<close>

definition CryptocurrencyAddressService_destroy :: "nat \<Rightarrow> unit promise" where
  "CryptocurrencyAddressService_destroy i =
     (\<lambda>st. (Inr (), st\<lparr>cryptocurrencyAddresses := removeAll i (cryptocurrencyAddresses st)\<rparr>))"

text \<open>
  Modelled from the spec: \<open>SmsgMessageService.updateSmsgMessageStatus\<close> is not among the
  sources. It records the processing status on the message.
\<close>

definition SmsgMessageService_updateSmsgMessageStatus ::
  "SmsgMessage \<Rightarrow> SmsgMessageStatus \<Rightarrow> unit promise" where
  "SmsgMessageService_updateSmsgMessageStatus message status =
     (\<lambda>st. (Inr (), st\<lparr>smsgStatus := (smsgStatus st)(msgid message \<mapsto> status)\<rparr>))"

definition services :: collaborators where
  "services =
     \<lparr>voteFactory_getMessage = VoteFactory_getMessage,
      voteFactory_getModel = VoteFactory_getModel,
      smsgService_smsgSend = SmsgService_smsgSend,
      proposalService_findOneByHash = ProposalService_findOneByHash,
      proposalService_recalculateProposalResult = ProposalService_recalculateProposalResult,
      voteService_getVoteWeight = VoteService_getVoteWeight,
      voteService_findOneByVoterAndProposalId = VoteService_findOneByVoterAndProposalId,
      voteService_create = VoteService_create,
      voteService_update = VoteService_update,
      profileService_findAll = ProfileService_findAll,
      listingItemRepo_findOne = ListingItemRepository_findOne,
      listingItemRepo_destroy = ListingItemRepository_destroy,
      cryptocurrencyAddressService_destroy = CryptocurrencyAddressService_destroy,
      smsgMessageService_updateSmsgMessageStatus = SmsgMessageService_updateSmsgMessageStatus\<rparr>"

text \<open>
  The invariant of the Vote Ledger: ids are unique, and there is at most one row for
  each pair of voter and proposal.
\<close>

definition ledger_ok :: "Vote list \<Rightarrow> bool" where
  "ledger_ok vs =
     (distinct (map vote_id vs) \<and> distinct (map (\<lambda>v. (vote_voter v, vote_proposalId v)) vs))"

text \<open>
  The upsert in the words of the specification: a row is created when the voter has none
  for the proposal; otherwise the option and the weight of that row are overwritten.
\<close>

definition spec_upsert :: "string \<Rightarrow> nat \<Rightarrow> nat \<Rightarrow> rat \<Rightarrow> Vote list \<Rightarrow> Vote list" where
  "spec_upsert a pid opt w vs =
     (case find (\<lambda>v. vote_voter v = a \<and> vote_proposalId v = pid) vs of
        None \<Rightarrow>
          vs @ [\<lparr>vote_id = nextVoteId vs, vote_voter = a, vote_proposalId = pid,
                 vote_option = opt, vote_weight = w\<rparr>]
      | Some lastVote \<Rightarrow>
          map (\<lambda>v. if vote_voter v = a \<and> vote_proposalId v = pid
                    then v\<lparr>vote_option := opt, vote_weight := w\<rparr>
                    else v) vs)"

section \<open>A marketplace with one flagged listing\<close>

definition env0 :: process_env where
  "env0 = \<lparr>MARKETPLACE_VERSION = Some ''0.0.1.0'', MINIMUM_REQUIRED_VOTES = EnvUndefined\<rparr>"

definition keepOption :: ProposalOption where
  "keepOption = \<lparr>optionId = 0, description = ''KEEP''\<rparr>"

definition removeOption :: ProposalOption where
  "removeOption = \<lparr>optionId = 1, description = ''REMOVE''\<rparr>"

definition snapshot :: "nat \<Rightarrow> rat \<Rightarrow> nat \<Rightarrow> rat \<Rightarrow> ProposalResult" where
  "snapshot kv kw rv rw =
     \<lparr>ProposalOptionResults =
        [\<lparr>ProposalOption = keepOption, voters = kv, weight = kw\<rparr>,
         \<lparr>ProposalOption = removeOption, voters = rv, weight = rw\<rparr>]\<rparr>"

definition proposal1 :: Proposal where
  "proposal1 =
     \<lparr>proposal_id = 1, proposal_hash = ''p1'', proposal_type = ITEM_VOTE,
      expiredAt = 200000000, ProposalOptions = [keepOption, removeOption],
      ProposalResults = [snapshot 1 5 0 0], FlaggedItem = Some \<lparr>listingItemId = 7\<rparr>\<rparr>"

definition proposal2 :: Proposal where
  "proposal2 =
     \<lparr>proposal_id = 2, proposal_hash = ''p2'', proposal_type = ITEM_VOTE,
      expiredAt = 200000000, ProposalOptions = [keepOption, removeOption],
      ProposalResults = [], FlaggedItem = Some \<lparr>listingItemId = 7\<rparr>\<rparr>"

definition bobsVote :: Vote where
  "bobsVote = \<lparr>vote_id = 1, vote_voter = ''bob'', vote_proposalId = 1, vote_option = 0,
               vote_weight = 5\<rparr>"

definition st0 :: state where
  "st0 =
     \<lparr>votes = [bobsVote],
      proposals = [proposal1, proposal2],
      profiles = [\<lparr>profile_address = ''alice''\<rparr>],
      listingItems =
        [\<lparr>Id = 7, PaymentInformation =
            Some \<lparr>ItemPrice = Some \<lparr>CryptocurrencyAddress = Some \<lparr>address_id = 3\<rparr>\<rparr>\<rparr>\<rparr>],
      cryptocurrencyAddresses = [3],
      balances = (\<lambda>a. if a = ''bob'' then 5 else if a = ''carol'' then 3 else 0),
      smsgStatus = Map.empty,
      outbox = []\<rparr>"

definition voteMessageOf :: "string \<Rightarrow> string \<Rightarrow> nat \<Rightarrow> VoteMessage" where
  "voteMessageOf a h opt =
     \<lparr>vote_action = MP_VOTE, proposalHash = h, vote_optionId = opt, voter = a\<rparr>"

definition smsgOf :: "string \<Rightarrow> rat \<Rightarrow> SmsgMessage" where
  "smsgOf a days = \<lparr>msgid = ''m1'', smsg_from = a, daysretention = days\<rparr>"

definition voteEvent :: "string \<Rightarrow> string \<Rightarrow> nat \<Rightarrow> rat \<Rightarrow> MarketplaceEvent" where
  "voteEvent a h opt days =
     \<lparr>smsgMessage = smsgOf a days,
      marketplaceMessage = \<lparr>version = Some ''0.0.1.0'', mpaction = Some (voteMessageOf a h opt)\<rparr>\<rparr>"

text \<open>The same collaborators with a Vote Ledger that rejects every insertion.\<close>

definition servicesInsertFails :: collaborators where
  "servicesInsertFails =
     services\<lparr>voteService_create := (\<lambda>request. reject (Rejection ''insert failed''))\<rparr>"

text \<open>The same collaborators with a Proposal Store that rejects every recomputation.\<close>

definition servicesRecalculateFails :: collaborators where
  "servicesRecalculateFails =
     services\<lparr>proposalService_recalculateProposalResult :=
                (\<lambda>proposal. reject (Rejection ''recalculation failed''))\<rparr>"

definition carolsVote :: Vote where
  "carolsVote = \<lparr>vote_id = 2, vote_voter = ''carol'', vote_proposalId = 1, vote_option = 1,
                 vote_weight = 3\<rparr>"

section \<open>Auxiliary facts\<close>

lemmas promise_defs = await_def query_def catch_all_def resolve_def reject_def

lemmas services_defs = services_def VoteFactory_getMessage_def VoteFactory_getModel_def
  SmsgService_smsgSend_def ProposalService_findOneByHash_def
  ProposalService_recalculateProposalResult_def VoteService_getVoteWeight_def
  VoteService_findOneByVoterAndProposalId_def VoteService_create_def VoteService_update_def
  ProfileService_findAll_def ListingItemRepository_findOne_def ListingItemRepository_destroy_def
  CryptocurrencyAddressService_destroy_def SmsgMessageService_updateSmsgMessageStatus_def

lemmas fixture_defs = env0_def keepOption_def removeOption_def snapshot_def proposal1_def
  proposal2_def bobsVote_def st0_def voteMessageOf_def smsgOf_def voteEvent_def


lemma js_gt_half_tie: "\<not> js_gt (js_div r (r + r)) (Finite (1 / 2))"
  by (cases "r = 0") (simp_all add: js_div_def)

lemma find_SomeD: "find P xs = Some x \<Longrightarrow> x \<in> set xs \<and> P x"
  by (induction xs) (auto split: if_splits)

lemma find_unique:
  "distinct (map f xs) \<Longrightarrow> x \<in> set xs \<Longrightarrow> find (\<lambda>v. f v = f x) xs = Some x"
  by (induction xs) (auto simp: image_iff)

lemma fold_max_ge: "a \<le> fold max xs (a::nat)"
  by (induction xs arbitrary: a) (auto intro: order_trans [OF max.cobounded2])

lemma fold_max_mem: "x \<in> set xs \<Longrightarrow> x \<le> fold max xs (a::nat)"
proof (induction xs arbitrary: a)
  case Nil
  then show ?case by simp
next
  case (Cons y ys)
  show ?case
  proof (cases "x = y")
    case True
    have "y \<le> max y a" by simp
    also have "\<dots> \<le> fold max ys (max y a)" by (rule fold_max_ge)
    finally show ?thesis using True by simp
  next
    case False
    with Cons show ?thesis by simp
  qed
qed

lemma nextVoteId_fresh: "nextVoteId vs \<notin> vote_id ` set vs"
proof
  assume "nextVoteId vs \<in> vote_id ` set vs"
  then have "nextVoteId vs \<in> set (map vote_id vs)" by simp
  then have "nextVoteId vs \<le> fold max (map vote_id vs) 0" by (rule fold_max_mem)
  then show False by (simp add: nextVoteId_def)
qed

lemma ledger_ok_create:
  assumes "ledger_ok vs"
    and "find (\<lambda>v. vote_voter v = a \<and> vote_proposalId v = pid) vs = None"
  shows "ledger_ok (vs @ [\<lparr>vote_id = nextVoteId vs, vote_voter = a, vote_proposalId = pid,
                           vote_option = opt, vote_weight = w\<rparr>])"
proof -
  have "(a, pid) \<notin> (\<lambda>v. (vote_voter v, vote_proposalId v)) ` set vs"
    using assms(2) by (auto simp: find_None_iff)
  with assms(1) nextVoteId_fresh [of vs] show ?thesis
    by (simp add: ledger_ok_def)
qed

lemma ledger_ok_overwrite:
  assumes "ledger_ok vs"
  shows "ledger_ok (map (\<lambda>v. if P v then v\<lparr>vote_option := opt, vote_weight := w\<rparr> else v) vs)"
proof -
  have a: "map vote_id (map (\<lambda>v. if P v then v\<lparr>vote_option := opt, vote_weight := w\<rparr> else v) vs)
          = map vote_id vs"
    by (induction vs) auto
  have b: "map (\<lambda>v. (vote_voter v, vote_proposalId v))
                   (map (\<lambda>v. if P v then v\<lparr>vote_option := opt, vote_weight := w\<rparr> else v) vs)
          = map (\<lambda>v. (vote_voter v, vote_proposalId v)) vs"
    by (induction vs) auto
  show ?thesis
    unfolding ledger_ok_def a b using assms [unfolded ledger_ok_def] .
qed

lemma ledger_ok_spec_upsert: "ledger_ok vs \<Longrightarrow> ledger_ok (spec_upsert a pid opt w vs)"
  by (auto simp: spec_upsert_def ledger_ok_create ledger_ok_overwrite split: option.splits)

lemma same_row:
  assumes "ledger_ok vs" "lv \<in> set vs" "x \<in> set vs"
  shows "(vote_id x = vote_id lv)
           = (vote_voter x = vote_voter lv \<and> vote_proposalId x = vote_proposalId lv)"
proof -
  have i1: "inj_on vote_id (set vs)"
    and i2: "inj_on (\<lambda>v. (vote_voter v, vote_proposalId v)) (set vs)"
    using assms(1) by (simp_all add: ledger_ok_def distinct_map)
  from i1 assms(2,3) have "(vote_id x = vote_id lv) = (x = lv)"
    by (auto dest: inj_onD)
  moreover from i2 assms(2,3)
  have "(vote_voter x = vote_voter lv \<and> vote_proposalId x = vote_proposalId lv) = (x = lv)"
    by (auto dest: inj_onD)
  ultimately show ?thesis by simp
qed

lemma createOrUpdateVote_services:
  assumes "ledger_ok (votes st)"
  shows "\<exists>vote. createOrUpdateVote services voteMessage proposal w voteSmsg st
           = (Inr vote,
              st\<lparr>votes := spec_upsert (voter voteMessage) (proposal_id proposal)
                             (vote_optionId voteMessage) w (votes st)\<rparr>)
         \<and> vote \<in> set (spec_upsert (voter voteMessage) (proposal_id proposal)
                             (vote_optionId voteMessage) w (votes st))
         \<and> vote_voter vote = voter voteMessage
         \<and> vote_proposalId vote = proposal_id proposal
         \<and> vote_option vote = vote_optionId voteMessage
         \<and> vote_weight vote = w"
proof (cases "find (\<lambda>v. vote_voter v = voter voteMessage \<and> vote_proposalId v = proposal_id proposal)
                (votes st)")
  case None
  then show ?thesis
    by (simp add: createOrUpdateVote_def promise_defs services_def
        VoteService_findOneByVoterAndProposalId_def VoteFactory_getModel_def
        VoteService_create_def spec_upsert_def Let_def)
next
  case (Some lv)
  then have lv: "lv \<in> set (votes st)" "vote_voter lv = voter voteMessage"
    "vote_proposalId lv = proposal_id proposal"
    by (auto dest: find_SomeD)
  have byid: "find (\<lambda>v. vote_id v = vote_id lv) (votes st) = Some lv"
    using assms lv(1) by (intro find_unique) (simp add: ledger_ok_def)
  have m: "map (\<lambda>x. if vote_id x = vote_id lv then f x else x) (votes st)
         = map (\<lambda>x. if vote_voter x = voter voteMessage \<and> vote_proposalId x = proposal_id proposal
                     then f x else x) (votes st)" for f
    using same_row [OF assms lv(1)] lv(2,3) by (intro map_cong) auto
  have mem: "lv\<lparr>vote_option := vote_optionId voteMessage, vote_weight := w\<rparr>
           \<in> set (map (\<lambda>x. if vote_voter x = voter voteMessage \<and> vote_proposalId x = proposal_id proposal
                            then x\<lparr>vote_option := vote_optionId voteMessage, vote_weight := w\<rparr>
                            else x) (votes st))"
    using lv by (auto simp: image_iff intro!: bexI [of _ lv])
  show ?thesis
    using Some byid lv(2,3) mem
    by (simp add: createOrUpdateVote_def promise_defs services_def
        VoteService_findOneByVoterAndProposalId_def VoteFactory_getModel_def
        VoteService_update_def spec_upsert_def Let_def overwrite_def m)
qed

lemma weAreTheVoter_iff: "weAreTheVoter ps v = (\<exists>p \<in> set ps. profile_address p = v)"
  by (induction ps) auto

lemma length_spec_upsert: "length vs \<le> length (spec_upsert a pid opt w vs)"
  by (simp add: spec_upsert_def split: option.splits)

lemma ids_spec_upsert:
  "take (length vs) (map vote_id (spec_upsert a pid opt w vs)) = map vote_id vs"
proof (cases "find (\<lambda>v. vote_voter v = a \<and> vote_proposalId v = pid) vs")
  case None
  then show ?thesis by (simp add: spec_upsert_def)
next
  case (Some lv)
  have "map vote_id (map (\<lambda>v. if vote_voter v = a \<and> vote_proposalId v = pid
                                then v\<lparr>vote_option := opt, vote_weight := w\<rparr> else v) vs)
          = map vote_id vs"
    by (induction vs) auto
  with Some show ?thesis by (simp add: spec_upsert_def)
qed

lemma one_row:
  "distinct (map f xs) \<Longrightarrow> x \<in> set xs \<Longrightarrow> length (filter (\<lambda>v. f v = f x) xs) = 1"
proof (induction xs)
  case Nil
  then show ?case by simp
next
  case (Cons y ys)
  show ?case
  proof (cases "x = y")
    case True
    from Cons.prems(1) have "f y \<notin> f ` set ys" by simp
    then have "filter (\<lambda>v. f v = f y) ys = []"
      by (auto simp: filter_empty_conv image_iff)
    with True show ?thesis by simp
  next
    case False
    with Cons.prems have "x \<in> set ys" "f y \<noteq> f x" by (auto simp: image_iff)
    with Cons show ?thesis by simp
  qed
qed


lemma mpaction_voteEvent:
  "mpaction (marketplaceMessage (voteEvent a h opt days)) = Some (voteMessageOf a h opt)"
  by (simp add: voteEvent_def)

lemma voter_voteEvent:
  "voter (voteMessageOf a h opt) = smsg_from (smsgMessage (voteEvent a h opt days))"
  by (simp add: voteEvent_def voteMessageOf_def smsgOf_def)

lemma findOneByHash_p1:
  "proposalService_findOneByHash services (proposalHash (voteMessageOf a ''p1'' opt)) st0
     = Inr proposal1"
  by (simp add: services_defs fixture_defs)

lemma findOneByHash_p2:
  "proposalService_findOneByHash services (proposalHash (voteMessageOf a ''p2'' opt)) st0
     = Inr proposal2"
  by (simp add: services_defs fixture_defs)

lemma findAll_st0: "profileService_findAll services st0 = Inr (profiles st0)"
  by (simp add: services_defs)

lemma days_chain: "(x::rat) / 1000 / 60 / 60 / 24 = x / 86400000"
  by simp

lemma ceiling_days_pos:
  assumes "now < (e::int)"
  shows "1 \<le> \<lceil>rat_of_int (e - now) / 86400000\<rceil>"
proof -
  have "0 < rat_of_int (e - now) / 86400000"
    using assms by simp
  then have "0 < \<lceil>rat_of_int (e - now) / 86400000\<rceil>"
    by (simp only: zero_less_ceiling)
  then show ?thesis by simp
qed

section \<open>The resolution policy\<close>




text \<open>
  C6. When the weights of the keep and the remove option result are equal (both zero
  included), \<open>shouldRemoveListingItem\<close> is false for every number of voters and every
  configured floor.
\<close>

theorem C6_tie_never_fires:
  assumes "find (\<lambda>r. optionId (ProposalOption r) = 0) (ProposalOptionResults pr) = Some keep"
    and "find (\<lambda>r. optionId (ProposalOption r) = 1) (ProposalOptionResults pr) = Some remove"
    and "weight remove = weight keep"
  shows "\<not> shouldRemoveListingItem env pr"
proof -
  have "\<not> js_gt (js_div (weight remove) (weight remove + weight keep)) (Finite (1 / 2))"
    using js_gt_half_tie [of "weight keep"] assms(3) by simp
  with assms(1,2) show ?thesis
    by (simp add: shouldRemoveListingItem_def Let_def)
qed

theorem C6_witness:
  "find (\<lambda>r. optionId (ProposalOption r) = 0) (ProposalOptionResults (snapshot 600 4 900 4))
     = Some \<lparr>ProposalOption = keepOption, voters = 600, weight = 4\<rparr>
   \<and> find (\<lambda>r. optionId (ProposalOption r) = 1) (ProposalOptionResults (snapshot 600 4 900 4))
     = Some \<lparr>ProposalOption = removeOption, voters = 900, weight = 4\<rparr>
   \<and> \<not> shouldRemoveListingItem env0 (snapshot 600 4 900 4)"
proof -
  let ?keep = "\<lparr>ProposalOption = keepOption, voters = 600, weight = 4\<rparr>"
  let ?remove = "\<lparr>ProposalOption = removeOption, voters = 900, weight = 4\<rparr>"
  have k: "find (\<lambda>r. optionId (ProposalOption r) = 0) (ProposalOptionResults (snapshot 600 4 900 4))
             = Some ?keep"
    by (simp add: snapshot_def keepOption_def removeOption_def)
  have r: "find (\<lambda>r. optionId (ProposalOption r) = 1) (ProposalOptionResults (snapshot 600 4 900 4))
             = Some ?remove"
    by (simp add: snapshot_def keepOption_def removeOption_def)
  have w: "weight ?remove = weight ?keep" by simp
  from k r C6_tie_never_fires [OF k r w, of env0] show ?thesis by blast
qed

section \<open>The upsert of the Vote Ledger\<close>

text \<open>
  C2. On a ledger with at most one row for each pair of voter and proposal,
  \<open>createOrUpdateVote\<close> returns the row of the voter for the proposal and leaves a
  ledger with the same property: it has appended a row when the voter had none for the
  proposal, and otherwise overwritten the option and the weight of the existing row in
  place. Afterwards there is exactly one row for the pair, and every earlier row is still
  at its place.
\<close>

theorem C2_createOrUpdateVote_one_row_per_pair:
  assumes "ledger_ok (votes st)"
  shows "\<exists>vote st'.
           createOrUpdateVote services voteMessage proposal w voteSmsg st = (Inr vote, st')
         \<and> votes st' = spec_upsert (voter voteMessage) (proposal_id proposal)
                         (vote_optionId voteMessage) w (votes st)
         \<and> ledger_ok (votes st')
         \<and> length (filter (\<lambda>v. vote_voter v = voter voteMessage
                                 \<and> vote_proposalId v = proposal_id proposal) (votes st')) = 1
         \<and> find (\<lambda>v. vote_voter v = voter voteMessage
                       \<and> vote_proposalId v = proposal_id proposal) (votes st') = Some vote
         \<and> vote_option vote = vote_optionId voteMessage
         \<and> vote_weight vote = w
         \<and> length (votes st) \<le> length (votes st')
         \<and> take (length (votes st)) (map vote_id (votes st')) = map vote_id (votes st)"
proof -
  let ?vs = "spec_upsert (voter voteMessage) (proposal_id proposal)
               (vote_optionId voteMessage) w (votes st)"
  let ?pair = "\<lambda>v. (vote_voter v, vote_proposalId v)"
  from createOrUpdateVote_services [OF assms, of voteMessage proposal w voteSmsg]
  obtain vote where run: "createOrUpdateVote services voteMessage proposal w voteSmsg st
                            = (Inr vote, st\<lparr>votes := ?vs\<rparr>)"
    and mem: "vote \<in> set ?vs"
    and key: "vote_voter vote = voter voteMessage" "vote_proposalId vote = proposal_id proposal"
    and val: "vote_option vote = vote_optionId voteMessage" "vote_weight vote = w"
    by blast
  have ok: "ledger_ok ?vs"
    using assms by (rule ledger_ok_spec_upsert)
  then have d: "distinct (map ?pair ?vs)"
    by (simp add: ledger_ok_def)
  have "length (filter (\<lambda>v. ?pair v = ?pair vote) ?vs) = 1"
    using d mem by (rule one_row)
  then have one: "length (filter (\<lambda>v. vote_voter v = voter voteMessage
                                    \<and> vote_proposalId v = proposal_id proposal) ?vs) = 1"
    using key by simp
  have "find (\<lambda>v. ?pair v = ?pair vote) ?vs = Some vote"
    using d mem by (rule find_unique)
  then have fnd: "find (\<lambda>v. vote_voter v = voter voteMessage
                          \<and> vote_proposalId v = proposal_id proposal) ?vs = Some vote"
    using key by simp
  from run ok one fnd val length_spec_upsert ids_spec_upsert show ?thesis
    by (intro exI [of _ vote] exI [of _ "st\<lparr>votes := ?vs\<rparr>"]) simp
qed

lemma ledger_ok_st0: "ledger_ok (votes st0)"
  by (simp add: ledger_ok_def st0_def bobsVote_def)

theorem C2_witness:
  "ledger_ok (votes st0)
   \<and> (\<exists>vote st'.
         createOrUpdateVote services (voteMessageOf ''bob'' ''p1'' 1) proposal1 4 (smsgOf ''bob'' 2) st0
           = (Inr vote, st')
         \<and> votes st' = [bobsVote\<lparr>vote_option := 1, vote_weight := 4\<rparr>]
         \<and> ledger_ok (votes st'))
   \<and> (\<exists>vote st'.
         createOrUpdateVote services (voteMessageOf ''carol'' ''p1'' 1) proposal1 3 (smsgOf ''carol'' 2) st0
           = (Inr vote, st')
         \<and> votes st' = [bobsVote, carolsVote]
         \<and> ledger_ok (votes st'))"
proof -
  have h: "ledger_ok (votes st0)" by (rule ledger_ok_st0)
  have u: "spec_upsert (voter (voteMessageOf ''bob'' ''p1'' 1)) (proposal_id proposal1)
             (vote_optionId (voteMessageOf ''bob'' ''p1'' 1)) 4 (votes st0)
           = [bobsVote\<lparr>vote_option := 1, vote_weight := 4\<rparr>]"
    by (simp add: spec_upsert_def fixture_defs)
  have c: "spec_upsert (voter (voteMessageOf ''carol'' ''p1'' 1)) (proposal_id proposal1)
             (vote_optionId (voteMessageOf ''carol'' ''p1'' 1)) 3 (votes st0)
           = [bobsVote, carolsVote]"
    by (simp add: spec_upsert_def fixture_defs carolsVote_def nextVoteId_def)
  from C2_createOrUpdateVote_one_row_per_pair [OF h, of "voteMessageOf ''bob'' ''p1'' 1" proposal1 4
      "smsgOf ''bob'' 2"] u
  have overwritten: "\<exists>vote st'.
         createOrUpdateVote services (voteMessageOf ''bob'' ''p1'' 1) proposal1 4 (smsgOf ''bob'' 2) st0
           = (Inr vote, st')
         \<and> votes st' = [bobsVote\<lparr>vote_option := 1, vote_weight := 4\<rparr>]
         \<and> ledger_ok (votes st')"
    by auto
  from C2_createOrUpdateVote_one_row_per_pair [OF h, of "voteMessageOf ''carol'' ''p1'' 1" proposal1 3
      "smsgOf ''carol'' 2"] c
  have created: "\<exists>vote st'.
         createOrUpdateVote services (voteMessageOf ''carol'' ''p1'' 1) proposal1 3 (smsgOf ''carol'' 2) st0
           = (Inr vote, st')
         \<and> votes st' = [bobsVote, carolsVote]
         \<and> ledger_ok (votes st')"
    by auto
  from h overwritten created show ?thesis by blast
qed

section \<open>The ingestion of a vote\<close>

text \<open>
  C3. For an inbound vote event (its vote payload names the sender as voter) whose
  proposal hash is not found, \<open>processVoteReceivedEvent\<close> resolves to WAITING and
  leaves the whole state unchanged.
\<close>

theorem C3_unknown_proposal_WAITING:
  assumes "mpaction (marketplaceMessage event) = Some voteMessage"
    and "voter voteMessage = smsg_from (smsgMessage event)"
    and "proposalService_findOneByHash this (proposalHash voteMessage) st = Inl ex"
  shows "processVoteReceivedEvent env this event st = (Inr WAITING, st)"
  using assms by (simp add: processVoteReceivedEvent_def promise_defs)

theorem C3_witness:
  "mpaction (marketplaceMessage (voteEvent ''carol'' ''zz'' 1 2)) = Some (voteMessageOf ''carol'' ''zz'' 1)
   \<and> voter (voteMessageOf ''carol'' ''zz'' 1) = smsg_from (smsgMessage (voteEvent ''carol'' ''zz'' 1 2))
   \<and> proposalService_findOneByHash services (proposalHash (voteMessageOf ''carol'' ''zz'' 1)) st0
       = Inl NotFoundException
   \<and> processVoteReceivedEvent env0 services (voteEvent ''carol'' ''zz'' 1 2) st0 = (Inr WAITING, st0)"
proof -
  have h1: "mpaction (marketplaceMessage (voteEvent ''carol'' ''zz'' 1 2))
              = Some (voteMessageOf ''carol'' ''zz'' 1)"
    by (simp add: voteEvent_def)
  have h2: "voter (voteMessageOf ''carol'' ''zz'' 1)
              = smsg_from (smsgMessage (voteEvent ''carol'' ''zz'' 1 2))"
    by (simp add: voteEvent_def voteMessageOf_def smsgOf_def)
  have h3: "proposalService_findOneByHash services (proposalHash (voteMessageOf ''carol'' ''zz'' 1)) st0
              = Inl NotFoundException"
    by (simp add: services_defs fixture_defs)
  from h1 h2 h3 C3_unknown_proposal_WAITING [OF h1 h2 h3, of env0] show ?thesis by simp
qed


text \<open>
  C4, as amended. When the upsert or the recomputation fails for a vote of a non-local
  voter with sufficient retention and a positive weight on a known proposal, the
  \<open>catch\<close> of \<open>processVoteReceivedEvent\<close> turns the failure into WAITING, and WAITING
  is the status that the listener reports for the message.
\<close>

theorem C4_failure_reports_WAITING:
  assumes "mpaction (marketplaceMessage event) = Some voteMessage"
    and "voter voteMessage = smsg_from (smsgMessage event)"
    and "proposalService_findOneByHash this (proposalHash voteMessage) st = Inr proposal"
    and "profileService_findAll this st = Inr ps"
    and "\<not> weAreTheVoter ps (voter voteMessage)"
    and "ProposalResults proposal \<noteq> []"
    and "1 \<le> daysretention (smsgMessage event)"
    and "voteService_getVoteWeight this (voter voteMessage) st = Inr w"
    and "0 < w"
    and "createOrUpdateVote this voteMessage proposal w (smsgMessage event) st = (Inl ex, st1)
         \<or> (\<exists>createdVote st'.
              createOrUpdateVote this voteMessage proposal w (smsgMessage event) st
                = (Inr createdVote, st')
              \<and> proposalService_recalculateProposalResult this proposal st' = (Inl ex, st1))"
  shows "processVoteReceivedEvent env this event st = (Inr WAITING, st1)
       \<and> onVoteReceivedEvent env this event st
           = catch_all (smsgMessageService_updateSmsgMessageStatus this (smsgMessage event) WAITING)
               (\<lambda>reason. smsgMessageService_updateSmsgMessageStatus this (smsgMessage event)
                            PARSING_FAILED) st1"
proof -
  have p: "processVoteReceivedEvent env this event st = (Inr WAITING, st1)"
    using assms by (auto simp add: processVoteReceivedEvent_def promise_defs)
  then show ?thesis
    by (simp add: onVoteReceivedEvent_def promise_defs)
qed



lemma upsert_insertFails:
  "createOrUpdateVote servicesInsertFails (voteMessageOf ''carol'' ''p1'' 1) proposal1 3
     (smsgMessage (voteEvent ''carol'' ''p1'' 1 2)) st0
   = (Inl (Rejection ''insert failed''), st0)"
  by (simp add: createOrUpdateVote_def promise_defs servicesInsertFails_def services_defs
      fixture_defs)

lemma upsert_recalculateFails:
  "createOrUpdateVote servicesRecalculateFails (voteMessageOf ''carol'' ''p1'' 1) proposal1 3
     (smsgMessage (voteEvent ''carol'' ''p1'' 1 2)) st0
   = (Inr carolsVote, st0\<lparr>votes := [bobsVote, carolsVote]\<rparr>)"
  by (simp add: createOrUpdateVote_def promise_defs servicesRecalculateFails_def services_defs
      fixture_defs carolsVote_def nextVoteId_def Let_def)

lemma recalculate_recalculateFails:
  "proposalService_recalculateProposalResult servicesRecalculateFails proposal1
     (st0\<lparr>votes := [bobsVote, carolsVote]\<rparr>)
   = (Inl (Rejection ''recalculation failed''), st0\<lparr>votes := [bobsVote, carolsVote]\<rparr>)"
  by (simp add: servicesRecalculateFails_def reject_def)

theorem C4_witness:
  "(createOrUpdateVote servicesInsertFails (voteMessageOf ''carol'' ''p1'' 1) proposal1 3
      (smsgMessage (voteEvent ''carol'' ''p1'' 1 2)) st0
      = (Inl (Rejection ''insert failed''), st0)
    \<and> processVoteReceivedEvent env0 servicesInsertFails (voteEvent ''carol'' ''p1'' 1 2) st0
      = (Inr WAITING, st0)
    \<and> smsgStatus (snd (onVoteReceivedEvent env0 servicesInsertFails
                         (voteEvent ''carol'' ''p1'' 1 2) st0)) ''m1'' = Some WAITING)
   \<and> (createOrUpdateVote servicesRecalculateFails (voteMessageOf ''carol'' ''p1'' 1) proposal1 3
        (smsgMessage (voteEvent ''carol'' ''p1'' 1 2)) st0
        = (Inr carolsVote, st0\<lparr>votes := [bobsVote, carolsVote]\<rparr>)
      \<and> proposalService_recalculateProposalResult servicesRecalculateFails proposal1
          (st0\<lparr>votes := [bobsVote, carolsVote]\<rparr>)
        = (Inl (Rejection ''recalculation failed''), st0\<lparr>votes := [bobsVote, carolsVote]\<rparr>)
      \<and> processVoteReceivedEvent env0 servicesRecalculateFails (voteEvent ''carol'' ''p1'' 1 2) st0
        = (Inr WAITING, st0\<lparr>votes := [bobsVote, carolsVote]\<rparr>)
      \<and> smsgStatus (snd (onVoteReceivedEvent env0 servicesRecalculateFails
                           (voteEvent ''carol'' ''p1'' 1 2) st0)) ''m1'' = Some WAITING)"
proof -
  let ?vm = "voteMessageOf ''carol'' ''p1'' 1"
  let ?ev = "voteEvent ''carol'' ''p1'' 1 2"
  have h5: "\<not> weAreTheVoter (profiles st0) (voter ?vm)"
    by (simp add: fixture_defs)
  have h6: "ProposalResults proposal1 \<noteq> []"
    by (simp add: proposal1_def)
  have h7: "1 \<le> daysretention (smsgMessage ?ev)"
    by (simp add: voteEvent_def smsgOf_def)
  have h9: "(0::rat) < 3" by simp
  have i3: "proposalService_findOneByHash servicesInsertFails (proposalHash ?vm) st0 = Inr proposal1"
    by (simp add: servicesInsertFails_def findOneByHash_p1)
  have i4: "profileService_findAll servicesInsertFails st0 = Inr (profiles st0)"
    by (simp add: servicesInsertFails_def findAll_st0)
  have i8: "voteService_getVoteWeight servicesInsertFails (voter ?vm) st0 = Inr 3"
    by (simp add: servicesInsertFails_def services_defs fixture_defs)
  from C4_failure_reports_WAITING [OF mpaction_voteEvent voter_voteEvent i3 i4 h5 h6 h7 i8 h9
      disjI1 [OF upsert_insertFails], of env0]
  have i: "processVoteReceivedEvent env0 servicesInsertFails ?ev st0 = (Inr WAITING, st0)"
    and i': "smsgStatus (snd (onVoteReceivedEvent env0 servicesInsertFails ?ev st0)) ''m1''
               = Some WAITING"
    by (simp_all add: promise_defs servicesInsertFails_def services_defs voteEvent_def smsgOf_def)
  have r3: "proposalService_findOneByHash servicesRecalculateFails (proposalHash ?vm) st0
              = Inr proposal1"
    by (simp add: servicesRecalculateFails_def findOneByHash_p1)
  have r4: "profileService_findAll servicesRecalculateFails st0 = Inr (profiles st0)"
    by (simp add: servicesRecalculateFails_def findAll_st0)
  have r8: "voteService_getVoteWeight servicesRecalculateFails (voter ?vm) st0 = Inr 3"
    by (simp add: servicesRecalculateFails_def services_defs fixture_defs)
  have r10: "\<exists>createdVote st'.
               createOrUpdateVote servicesRecalculateFails ?vm proposal1 3 (smsgMessage ?ev) st0
                 = (Inr createdVote, st')
               \<and> proposalService_recalculateProposalResult servicesRecalculateFails proposal1 st'
                 = (Inl (Rejection ''recalculation failed''), st0\<lparr>votes := [bobsVote, carolsVote]\<rparr>)"
    using upsert_recalculateFails recalculate_recalculateFails by blast
  from C4_failure_reports_WAITING [OF mpaction_voteEvent voter_voteEvent r3 r4 h5 h6 h7 r8 h9
      disjI2 [OF r10], of env0]
  have r: "processVoteReceivedEvent env0 servicesRecalculateFails ?ev st0
             = (Inr WAITING, st0\<lparr>votes := [bobsVote, carolsVote]\<rparr>)"
    and r': "smsgStatus (snd (onVoteReceivedEvent env0 servicesRecalculateFails ?ev st0)) ''m1''
               = Some WAITING"
    by (simp_all add: promise_defs servicesRecalculateFails_def services_defs voteEvent_def
        smsgOf_def)
  from upsert_insertFails i i' upsert_recalculateFails recalculate_recalculateFails r r'
  show ?thesis by blast
qed

text \<open>
  The claim as it stands fails: with a ledger that rejects the insertion, the status
  recorded for the message is WAITING and not \<open>PARSING_FAILED\<close>.
\<close>

theorem C4_counterexample:
  "proposalService_findOneByHash servicesInsertFails ''p1'' st0 = Inr proposal1
   \<and> fst (createOrUpdateVote servicesInsertFails (voteMessageOf ''carol'' ''p1'' 1) proposal1 3
            (smsgMessage (voteEvent ''carol'' ''p1'' 1 2)) st0) = Inl (Rejection ''insert failed'')
   \<and> smsgStatus (snd (onVoteReceivedEvent env0 servicesInsertFails
                        (voteEvent ''carol'' ''p1'' 1 2) st0)) ''m1'' = Some WAITING
   \<and> smsgStatus (snd (onVoteReceivedEvent env0 servicesInsertFails
                        (voteEvent ''carol'' ''p1'' 1 2) st0)) ''m1'' \<noteq> Some PARSING_FAILED"
  by (simp add: onVoteReceivedEvent_def processVoteReceivedEvent_def createOrUpdateVote_def
      promise_defs servicesInsertFails_def services_defs fixture_defs)

text \<open>
  C5, as amended. For an inbound vote event for a known proposal from a non-local voter
  whose retention is below 1, \<open>processVoteReceivedEvent\<close> throws inside the promise
  chain, resolves to WAITING and leaves the whole state unchanged.
\<close>

theorem C5_below_retention_WAITING:
  assumes "mpaction (marketplaceMessage event) = Some voteMessage"
    and "voter voteMessage = smsg_from (smsgMessage event)"
    and "proposalService_findOneByHash this (proposalHash voteMessage) st = Inr proposal"
    and "profileService_findAll this st = Inr ps"
    and "\<not> weAreTheVoter ps (voter voteMessage)"
    and "daysretention (smsgMessage event) < 1"
  shows "processVoteReceivedEvent env this event st = (Inr WAITING, st)"
  using assms by (simp add: processVoteReceivedEvent_def promise_defs)


theorem C5_witness:
  "\<not> weAreTheVoter (profiles st0) (voter (voteMessageOf ''carol'' ''p1'' 1))
   \<and> daysretention (smsgMessage (voteEvent ''carol'' ''p1'' 1 0)) < 1
   \<and> processVoteReceivedEvent env0 services (voteEvent ''carol'' ''p1'' 1 0) st0
     = (Inr WAITING, st0)"
proof -
  have h5: "\<not> weAreTheVoter (profiles st0) (voter (voteMessageOf ''carol'' ''p1'' 1))"
    by (simp add: fixture_defs)
  have h6: "daysretention (smsgMessage (voteEvent ''carol'' ''p1'' 1 0)) < 1"
    by (simp add: voteEvent_def smsgOf_def)
  from h5 h6 C5_below_retention_WAITING [OF mpaction_voteEvent voter_voteEvent findOneByHash_p1
      findAll_st0 h5 h6, of env0]
  show ?thesis by blast
qed

text \<open>
  The claim as it stands fails: the event of the witness does not complete with the
  status PROCESSED.
\<close>

theorem C5_counterexample:
  "proposalService_findOneByHash services ''p1'' st0 = Inr proposal1
   \<and> \<not> weAreTheVoter (profiles st0) ''carol''
   \<and> daysretention (smsgMessage (voteEvent ''carol'' ''p1'' 1 0)) < 1
   \<and> fst (processVoteReceivedEvent env0 services (voteEvent ''carol'' ''p1'' 1 0) st0)
       \<noteq> Inr PROCESSED"
  by (simp add: processVoteReceivedEvent_def promise_defs services_defs fixture_defs)

text \<open>
  C7, as amended. For an inbound vote event for a known proposal whose voter address is
  the address of a local profile, \<open>processVoteReceivedEvent\<close> resolves to PROCESSED and
  leaves the whole state unchanged.
\<close>

theorem C7_local_voter_PROCESSED:
  assumes "mpaction (marketplaceMessage event) = Some voteMessage"
    and "voter voteMessage = smsg_from (smsgMessage event)"
    and "proposalService_findOneByHash this (proposalHash voteMessage) st = Inr proposal"
    and "profileService_findAll this st = Inr ps"
    and "profile \<in> set ps"
    and "profile_address profile = voter voteMessage"
  shows "processVoteReceivedEvent env this event st = (Inr PROCESSED, st)"
proof -
  have "weAreTheVoter ps (voter voteMessage)"
    using assms(5,6) by (auto simp: weAreTheVoter_iff)
  with assms(1-4) show ?thesis
    by (simp add: processVoteReceivedEvent_def promise_defs)
qed


theorem C7_witness:
  "\<lparr>profile_address = ''alice''\<rparr> \<in> set (profiles st0)
   \<and> profile_address \<lparr>profile_address = ''alice''\<rparr> = voter (voteMessageOf ''alice'' ''p1'' 1)
   \<and> processVoteReceivedEvent env0 services (voteEvent ''alice'' ''p1'' 1 2) st0
     = (Inr PROCESSED, st0)"
proof -
  have h5: "\<lparr>profile_address = ''alice''\<rparr> \<in> set (profiles st0)"
    by (simp add: st0_def)
  have h6: "profile_address \<lparr>profile_address = ''alice''\<rparr> = voter (voteMessageOf ''alice'' ''p1'' 1)"
    by (simp add: voteMessageOf_def)
  from h5 h6 C7_local_voter_PROCESSED [OF mpaction_voteEvent voter_voteEvent findOneByHash_p1
      findAll_st0 h5 h6, of env0 2]
  show ?thesis by blast
qed

text \<open>
  The claim as it stands fails: the self-vote check comes after the lookup of the
  proposal, so the vote of a local profile on an unknown proposal resolves to WAITING.
\<close>

theorem C7_counterexample:
  "weAreTheVoter (profiles st0) (voter (voteMessageOf ''alice'' ''zz'' 1))
   \<and> mpaction (marketplaceMessage (voteEvent ''alice'' ''zz'' 1 2)) = Some (voteMessageOf ''alice'' ''zz'' 1)
   \<and> processVoteReceivedEvent env0 services (voteEvent ''alice'' ''zz'' 1 2) st0 = (Inr WAITING, st0)
   \<and> fst (processVoteReceivedEvent env0 services (voteEvent ''alice'' ''zz'' 1 2) st0) \<noteq> Inr PROCESSED"
  by (simp add: processVoteReceivedEvent_def promise_defs services_defs fixture_defs)


text \<open>
  C8, as amended. For an inbound vote event for a known proposal with a non-empty
  collection of ProposalResults, from a non-local voter with sufficient retention whose
  weight resolves to zero, \<open>processVoteReceivedEvent\<close> resolves to PROCESSED and leaves
  the whole state unchanged: no row is persisted, nothing is recomputed or resolved.
\<close>

theorem C8_zero_weight_PROCESSED:
  assumes "mpaction (marketplaceMessage event) = Some voteMessage"
    and "voter voteMessage = smsg_from (smsgMessage event)"
    and "proposalService_findOneByHash this (proposalHash voteMessage) st = Inr proposal"
    and "profileService_findAll this st = Inr ps"
    and "\<not> weAreTheVoter ps (voter voteMessage)"
    and "ProposalResults proposal \<noteq> []"
    and "1 \<le> daysretention (smsgMessage event)"
    and "voteService_getVoteWeight this (voter voteMessage) st = Inr 0"
  shows "processVoteReceivedEvent env this event st = (Inr PROCESSED, st)"
  using assms by (simp add: processVoteReceivedEvent_def promise_defs)


theorem C8_witness:
  "\<not> weAreTheVoter (profiles st0) (voter (voteMessageOf ''dave'' ''p1'' 1))
   \<and> ProposalResults proposal1 \<noteq> []
   \<and> 1 \<le> daysretention (smsgMessage (voteEvent ''dave'' ''p1'' 1 2))
   \<and> voteService_getVoteWeight services (voter (voteMessageOf ''dave'' ''p1'' 1)) st0 = Inr 0
   \<and> processVoteReceivedEvent env0 services (voteEvent ''dave'' ''p1'' 1 2) st0
     = (Inr PROCESSED, st0)"
proof -
  have h5: "\<not> weAreTheVoter (profiles st0) (voter (voteMessageOf ''dave'' ''p1'' 1))"
    by (simp add: fixture_defs)
  have h6: "ProposalResults proposal1 \<noteq> []"
    by (simp add: proposal1_def)
  have h7: "1 \<le> daysretention (smsgMessage (voteEvent ''dave'' ''p1'' 1 2))"
    by (simp add: voteEvent_def smsgOf_def)
  have h8: "voteService_getVoteWeight services (voter (voteMessageOf ''dave'' ''p1'' 1)) st0 = Inr 0"
    by (simp add: services_defs fixture_defs)
  from h5 h6 h7 h8 C8_zero_weight_PROCESSED [OF mpaction_voteEvent voter_voteEvent findOneByHash_p1
      findAll_st0 h5 h6 h7 h8, of env0]
  show ?thesis by blast
qed

text \<open>
  The claim as it stands fails: on a known proposal without ProposalResults the event of
  a zero-weight voter resolves to WAITING.
\<close>

theorem C8_counterexample:
  "proposalService_findOneByHash services ''p2'' st0 = Inr proposal2
   \<and> \<not> weAreTheVoter (profiles st0) ''dave''
   \<and> 1 \<le> daysretention (smsgMessage (voteEvent ''dave'' ''p2'' 1 2))
   \<and> voteService_getVoteWeight services ''dave'' st0 = Inr 0
   \<and> processVoteReceivedEvent env0 services (voteEvent ''dave'' ''p2'' 1 2) st0
       = (Inr WAITING, st0)
   \<and> fst (processVoteReceivedEvent env0 services (voteEvent ''dave'' ''p2'' 1 2) st0)
       \<noteq> Inr PROCESSED"
  by (simp add: processVoteReceivedEvent_def promise_defs services_defs fixture_defs)

text \<open>
  C9. When the factory has built the vote message, \<open>send\<close> is exactly one call of the
  transport, with a retention of the remaining time to the expiry of the proposal in
  days, rounded up; the retention is at least one day while the proposal has not expired.
  \<open>send\<close> touches the state only through the transport, so it writes no Vote row when
  the transport writes none.
\<close>

theorem C9_send_retention:
  assumes "voteFactory_getMessage this MP_VOTE proposal proposalOption
             (profile_address senderProfile) = Inr voteMessage"
  shows "send env this now proposal proposalOption senderProfile marketplace st
           = smsgService_smsgSend this (profile_address senderProfile) (market_address marketplace)
               \<lparr>version = MARKETPLACE_VERSION env, mpaction = Some voteMessage\<rparr> False
               \<lceil>rat_of_int (expiredAt proposal - now) / 86400000\<rceil> st
       \<and> (now < expiredAt proposal \<longrightarrow> 1 \<le> \<lceil>rat_of_int (expiredAt proposal - now) / 86400000\<rceil>)
       \<and> ((\<forall>a b m f d s. votes (snd (smsgService_smsgSend this a b m f d s)) = votes s) \<longrightarrow>
            votes (snd (send env this now proposal proposalOption senderProfile marketplace st))
              = votes st)"
proof -
  have run: "send env this now proposal proposalOption senderProfile marketplace st
           = smsgService_smsgSend this (profile_address senderProfile) (market_address marketplace)
               \<lparr>version = MARKETPLACE_VERSION env, mpaction = Some voteMessage\<rparr> False
               \<lceil>rat_of_int (expiredAt proposal - now) / 86400000\<rceil> st"
    using assms by (simp only: send_def await_def Let_def days_chain) simp
  have pos: "1 \<le> \<lceil>rat_of_int (expiredAt proposal - now) / 86400000\<rceil>" if "now < expiredAt proposal"
    using that by (rule ceiling_days_pos)
  from run pos show ?thesis by simp
qed

theorem C9_witness:
  "voteFactory_getMessage services MP_VOTE proposal1 removeOption
     (profile_address \<lparr>profile_address = ''alice''\<rparr>) = Inr (voteMessageOf ''alice'' ''p1'' 1)
   \<and> (100000000::int) < expiredAt proposal1
   \<and> send env0 services 100000000 proposal1 removeOption \<lparr>profile_address = ''alice''\<rparr>
        \<lparr>market_address = ''market''\<rparr> st0
     = (Inr \<lparr>result = ''Sent.''\<rparr>,
        st0\<lparr>outbox := [(''alice'', ''market'',
                         \<lparr>version = Some ''0.0.1.0'', mpaction = Some (voteMessageOf ''alice'' ''p1'' 1)\<rparr>,
                         False, 2)]\<rparr>)
   \<and> votes (snd (send env0 services 100000000 proposal1 removeOption
                   \<lparr>profile_address = ''alice''\<rparr> \<lparr>market_address = ''market''\<rparr> st0)) = votes st0"
proof -
  have h: "voteFactory_getMessage services MP_VOTE proposal1 removeOption
             (profile_address \<lparr>profile_address = ''alice''\<rparr>) = Inr (voteMessageOf ''alice'' ''p1'' 1)"
    by (simp add: services_defs fixture_defs)
  have e: "(100000000::int) < expiredAt proposal1"
    by (simp add: proposal1_def)
  have d: "\<lceil>rat_of_int (expiredAt proposal1 - 100000000) / 86400000\<rceil> = 2"
    by (simp add: proposal1_def ceiling_eq_iff)
  have t: "\<forall>a b m f d s. votes (snd (smsgService_smsgSend services a b m f d s)) = votes s"
    by (simp add: services_defs)
  from C9_send_retention [OF h, of env0 100000000 "\<lparr>market_address = ''market''\<rparr>" st0] d t h e
  show ?thesis
    by (simp add: services_defs env0_def st0_def)
qed

text \<open>
  C10. For an inbound vote event from a non-local voter whose proposal is found but has
  an empty collection of ProposalResults, the exception raised inside the promise chain
  is caught: \<open>processVoteReceivedEvent\<close> resolves to WAITING and leaves the whole state
  unchanged.
\<close>

theorem C10_empty_results_WAITING:
  assumes "mpaction (marketplaceMessage event) = Some voteMessage"
    and "voter voteMessage = smsg_from (smsgMessage event)"
    and "proposalService_findOneByHash this (proposalHash voteMessage) st = Inr proposal"
    and "profileService_findAll this st = Inr ps"
    and "\<not> weAreTheVoter ps (voter voteMessage)"
    and "ProposalResults proposal = []"
  shows "processVoteReceivedEvent env this event st = (Inr WAITING, st)"
  using assms by (simp add: processVoteReceivedEvent_def promise_defs)


theorem C10_witness:
  "\<not> weAreTheVoter (profiles st0) (voter (voteMessageOf ''carol'' ''p2'' 1))
   \<and> ProposalResults proposal2 = []
   \<and> processVoteReceivedEvent env0 services (voteEvent ''carol'' ''p2'' 1 2) st0
     = (Inr WAITING, st0)"
proof -
  have h5: "\<not> weAreTheVoter (profiles st0) (voter (voteMessageOf ''carol'' ''p2'' 1))"
    by (simp add: fixture_defs)
  have h6: "ProposalResults proposal2 = []"
    by (simp add: proposal2_def)
  from h5 h6 C10_empty_results_WAITING [OF mpaction_voteEvent voter_voteEvent findOneByHash_p2
      findAll_st0 h5 h6, of env0 2]
  show ?thesis by blast
qed

end
